theory Spec2Isabelle
  imports
    Complex_Main
    "HOL-Library.Word"
    "HOL-Library.Signed_Division"
    "HOL-Library.Multiset"
    "HOL-Library.Monad_Syntax"
begin

section \<open>The paper-trading engine of paperstrat.go\<close>

text \<open>
  A shallow embedding of \<^verbatim>\<open>paperstrat.go\<close>: the scoring of a batch of DexScreener
  pairs (\<^verbatim>\<open>calculateScores\<close>), and one cycle of the decision loop (\<^verbatim>\<open>runScan\<close>)
  with its exit and entry logic on the global \<^verbatim>\<open>wallet\<close> and \<^verbatim>\<open>holding\<close>.

  Conventions of the model.
  \<^item> A Go \<^verbatim>\<open>float64\<close> is a \<open>real\<close>: arithmetic is exact, and the values are the
    finite ones (JSON numbers are finite). The one operation that leaves the finite
    values on finite operands, a division by zero, is written \<open>fdiv\<close> and yields
    \<open>None\<close>; a function that divides returns an option, and \<open>None\<close> says that its
    Go original would have produced an infinity or a NaN.
  \<^item> A Go \<^verbatim>\<open>int\<close> is a 64-bit word read as a signed number (\<open>sint\<close>), so \<open>+\<close> wraps.
  \<^item> A \<^verbatim>\<open>time.Time\<close> is an integer number of nanoseconds; the clock readings of one
    cycle are one instant \<open>now\<close>.
  \<^item> The global variables are a record that a cycle takes and returns; the lines
    written to the console and to the two JSON files are a list of events, in order.
  \<^item> The library routine \<^verbatim>\<open>sort.Slice\<close> is a parameter of the entry logic and of the
    cycle; what is proved about it is proved from its documented contract.
\<close>

subsection \<open>Constants\<close>

definition tradeSizeSOL :: real where "tradeSizeSOL = 1"
definition simulatedFeePercent :: real where "simulatedFeePercent = 3 / 1000"

definition minLiquidityUSD :: real where "minLiquidityUSD = 2000"
definition minVolume5mUSD :: real where "minVolume5mUSD = 500"
definition minPairAgeHours :: real where "minPairAgeHours = 1"

definition wM5Change :: real where "wM5Change = 30 / 100"
definition wH1Change :: real where "wH1Change = 15 / 100"
definition wM5Volume :: real where "wM5Volume = 20 / 100"
definition wM5BuySellRatio :: real where "wM5BuySellRatio = 25 / 100"
definition wLiquidity :: real where "wLiquidity = 10 / 100"
definition minScoreToEnter :: real where "minScoreToEnter = 65 / 100"

definition takeProfitThreshold :: real where "takeProfitThreshold = 105 / 100"
definition trailingStopLossPercent :: real where "trailingStopLossPercent = 3 / 100"
definition momentumFadeExitM5 :: real where "momentumFadeExitM5 = 1 / 1000"
definition liquidityDropPercent :: real where "liquidityDropPercent = 30 / 100"

text \<open>
  One hour, the minimum pair age \<^verbatim>\<open>minPairAgeHours * time.Hour\<close>, and five minutes
  (\<^verbatim>\<open>5*time.Minute\<close>), in nanoseconds.
\<close>

definition hour_ns :: int where "hour_ns = 3600 * 1000000000"
definition fiveMinutes_ns :: int where "fiveMinutes_ns = 300 * 1000000000"

subsection \<open>Numbers\<close>

text \<open>\<^verbatim>\<open>float64(n)\<close> for a Go \<^verbatim>\<open>int\<close>.\<close>

definition float64 :: "64 word \<Rightarrow> real" where
  "float64 n = real_of_int (sint n)"

text \<open>Division of two finite floats: no finite result when the divisor is zero.\<close>

definition fdiv :: "real \<Rightarrow> real \<Rightarrow> real option" where
  "fdiv x y = (if y = 0 then None else Some (x / y))"

subsection \<open>Helper functions\<close>

text \<open>
  \<^verbatim>\<open>parseFloat(val, defaultVal)\<close>: the argument is the outcome of \<^verbatim>\<open>strconv.ParseFloat\<close>
  on the text, \<open>None\<close> where it reports an error.
\<close>

definition parseFloat :: "real option \<Rightarrow> real \<Rightarrow> real" where
  "parseFloat val defaultVal = (case val of None \<Rightarrow> defaultVal | Some f \<Rightarrow> f)"

definition calculateBuySellRatio :: "64 word \<Rightarrow> 64 word \<Rightarrow> real option" where
  "calculateBuySellRatio buys sells =
     (let totalTxns = buys + sells
      in if totalTxns = 0 then Some (1 / 2)
         else fdiv (float64 buys) (float64 totalTxns))"

definition normalize :: "real \<Rightarrow> real \<Rightarrow> real \<Rightarrow> real option" where
  "normalize v mn mx =
     (if mx - mn = 0 then Some 0
      else fdiv (v - mn) (mx - mn))"

subsection \<open>Paper-trading state\<close>

record paperWallet =
  SOLBalance :: real
  InitialSOL :: real
  TradesMade :: "64 word"
  ProfitableTrades :: "64 word"
  TotalFeesPaid :: real

definition profitabilityPercent :: "paperWallet \<Rightarrow> real option" where
  "profitabilityPercent w =
     (if TradesMade w = 0 then Some 0
      else map_option (\<lambda>q. q * 100) (fdiv (float64 (ProfitableTrades w)) (float64 (TradesMade w))))"

subsection \<open>The DexScreener pair\<close>

text \<open>
  The fields of \<^verbatim>\<open>Pair\<close> that \<^verbatim>\<open>runScan\<close> reads. \<open>p_PriceNative\<close> and \<open>p_PriceUsd\<close>
  hold what \<^verbatim>\<open>strconv.ParseFloat\<close> makes of the two price strings.
\<close>

record token =
  t_Address :: string
  t_Name :: string
  t_Symbol :: string

record buysSells =
  Buys :: "64 word"
  Sells :: "64 word"

record pair =
  p_URL :: string
  p_PairAddress :: string
  p_BaseToken :: token
  p_QuoteToken :: token
  p_PriceNative :: "real option"
  p_PriceUsd :: "real option"
  p_TxnsM5 :: buysSells
  p_VolumeM5 :: real
  p_PriceChangeM5 :: real
  p_PriceChangeH1 :: real
  p_LiquidityUsd :: real
  p_PairCreatedAt :: int

record tokenInfo =
  PairAddress :: string
  BaseTokenSymbol :: string
  BaseTokenAddr :: string
  QuoteTokenSymbol :: string
  QuoteTokenAddr :: string
  PairCreatedAt :: int
  PriceNative :: real
  PriceUSD :: real
  LiquidityUSD :: real
  PriceChangeM5 :: real
  PriceChangeH1 :: real
  VolumeM5 :: real
  M5BuySellRatio :: real
  PairURL :: string
  NormM5Change :: real
  NormH1Change :: real
  NormM5Volume :: real
  NormM5BuySellRatio :: real
  NormLiquidity :: real
  Score :: real

record currentHolding =
  h_Active :: bool
  h_BaseTokenSymbol :: string
  h_BaseTokenAddr :: string
  h_QuoteTokenSymbol :: string
  h_QuoteTokenAddr :: string
  h_PairAddress :: string
  h_AmountToken :: real
  h_EntryPriceNative :: real
  h_EntryTime :: int
  h_EntryLiquidityUSD :: real
  h_PeakPriceNative :: real

text \<open>The two global variables.\<close>

record tradeState =
  wallet :: paperWallet
  holding :: currentHolding

subsection \<open>Log entries and events\<close>

text \<open>
  The reason of a SELL is one of four formatted strings; the two numbers are the
  thresholds that \<^verbatim>\<open>fmt.Sprintf\<close> prints into them. The empty reason string is
  \<open>None\<close>.
\<close>

datatype sellReason =
    LiquidityDrop real
  | TrailingStopLoss real
  | TakeProfit
  | MomentumFade


record tradeLogEntry =
  tl_Timestamp :: int
  tl_Action :: string
  tl_Symbol :: string
  tl_PairAddress :: string
  tl_SOLAmount :: real
  tl_TokenAmount :: real
  tl_PriceNative :: real
  tl_FeeSOL :: real
  tl_ProfitLossSOL :: real
  tl_Reason :: "sellReason option"

record walletLogEntry =
  wl_Timestamp :: int
  wl_SOLBalance :: real
  wl_Holding :: currentHolding
  wl_TradesMade :: "64 word"
  wl_FeesPaid :: real

datatype event =
    FetchErrorSkip string
  | PairDataNotFound string string
  | SellSignal string sellReason
  | HoldingStatus currentHolding tokenInfo
  | TopScorers "tokenInfo list"
  | BuySignal string real
  | InsufficientSOL real real
  | NoBuy string real
  | NoCandidates
  | TradeLogged tradeLogEntry
  | WalletConsole real "64 word" "real option" real bool
  | WalletLogged walletLogEntry

text \<open>\<^verbatim>\<open>logWalletState\<close>: one console line and one line of \<^verbatim>\<open>wallet_log.json\<close>.\<close>

definition logWalletState :: "int \<Rightarrow> tradeState \<Rightarrow> event list" where
  "logWalletState now st =
     [WalletConsole (SOLBalance (wallet st)) (TradesMade (wallet st))
        (profitabilityPercent (wallet st)) (TotalFeesPaid (wallet st)) (h_Active (holding st)),
      WalletLogged \<lparr> wl_Timestamp = now,
                     wl_SOLBalance = SOLBalance (wallet st),
                     wl_Holding = holding st,
                     wl_TradesMade = TradesMade (wallet st),
                     wl_FeesPaid = TotalFeesPaid (wallet st) \<rparr>]"

subsection \<open>Scoring\<close>

text \<open>The ten running minima and maxima of the loop over \<^verbatim>\<open>candidates[1:]\<close>.\<close>

record bounds =
  minM5 :: real
  maxM5 :: real
  minH1 :: real
  maxH1 :: real
  minVol :: real
  maxVol :: real
  minRatio :: real
  maxRatio :: real
  minLiq :: real
  maxLiq :: real

definition initBounds :: "tokenInfo \<Rightarrow> bounds" where
  "initBounds c =
     \<lparr> minM5 = PriceChangeM5 c, maxM5 = PriceChangeM5 c,
       minH1 = PriceChangeH1 c, maxH1 = PriceChangeH1 c,
       minVol = VolumeM5 c, maxVol = VolumeM5 c,
       minRatio = M5BuySellRatio c, maxRatio = M5BuySellRatio c,
       minLiq = LiquidityUSD c, maxLiq = LiquidityUSD c \<rparr>"

definition stepBounds :: "bounds \<Rightarrow> tokenInfo \<Rightarrow> bounds" where
  "stepBounds b c =
     \<lparr> minM5 = min (minM5 b) (PriceChangeM5 c), maxM5 = max (maxM5 b) (PriceChangeM5 c),
       minH1 = min (minH1 b) (PriceChangeH1 c), maxH1 = max (maxH1 b) (PriceChangeH1 c),
       minVol = min (minVol b) (VolumeM5 c), maxVol = max (maxVol b) (VolumeM5 c),
       minRatio = min (minRatio b) (M5BuySellRatio c),
       maxRatio = max (maxRatio b) (M5BuySellRatio c),
       minLiq = min (minLiq b) (LiquidityUSD c), maxLiq = max (maxLiq b) (LiquidityUSD c) \<rparr>"

text \<open>The first loop: it starts from \<^verbatim>\<open>candidates[0]\<close> and runs over \<^verbatim>\<open>candidates[1:]\<close>.\<close>

definition findBounds :: "tokenInfo \<Rightarrow> tokenInfo list \<Rightarrow> bounds" where
  "findBounds c0 rest = foldl stepBounds (initBounds c0) rest"

text \<open>The body of the second loop: the five normalized components and the score.\<close>

definition scoreCandidate :: "bounds \<Rightarrow> tokenInfo \<Rightarrow> tokenInfo option" where
  "scoreCandidate b c = do {
     nM5 \<leftarrow> normalize (PriceChangeM5 c) (minM5 b) (maxM5 b);
     nH1 \<leftarrow> normalize (PriceChangeH1 c) (minH1 b) (maxH1 b);
     nVol \<leftarrow> normalize (VolumeM5 c) (minVol b) (maxVol b);
     nRatio \<leftarrow> normalize (M5BuySellRatio c) (minRatio b) (maxRatio b);
     nLiq \<leftarrow> normalize (LiquidityUSD c) (minLiq b) (maxLiq b);
     Some (c\<lparr> NormM5Change := nM5, NormH1Change := nH1, NormM5Volume := nVol,
              NormM5BuySellRatio := nRatio, NormLiquidity := nLiq,
              Score := nM5 * wM5Change + nH1 * wH1Change + nVol * wM5Volume
                       + nRatio * wM5BuySellRatio + nLiq * wLiquidity \<rparr>)
   }"

fun scoreAll :: "bounds \<Rightarrow> tokenInfo list \<Rightarrow> tokenInfo list option" where
  "scoreAll b [] = Some []"
| "scoreAll b (c # cs) = do {
     c' \<leftarrow> scoreCandidate b c;
     cs' \<leftarrow> scoreAll b cs;
     Some (c' # cs')
   }"

definition calculateScores :: "tokenInfo list \<Rightarrow> tokenInfo list option" where
  "calculateScores candidates =
     (if length candidates < 2 then Some (map (\<lambda>c. c\<lparr> Score := 0 \<rparr>) candidates)
      else case candidates of
             [] \<Rightarrow> Some []
           | c0 # rest \<Rightarrow> scoreAll (findBounds c0 rest) candidates)"

subsection \<open>Filtering the fetched pairs\<close>

text \<open>\<^verbatim>\<open>time.Unix(pair.PairCreatedAt/1000, 0)\<close>; Go's integer division truncates.\<close>

definition createdAtOf :: "pair \<Rightarrow> int" where
  "createdAtOf p = (p_PairCreatedAt p sdiv 1000) * 1000000000"

text \<open>The five \<^verbatim>\<open>continue\<close> tests of the loop, in their order.\<close>

definition skipPair :: "int \<Rightarrow> pair \<Rightarrow> bool" where
  "skipPair minTime p =
     (if t_Symbol (p_QuoteToken p) \<noteq> ''SOL'' then True
      else if p_LiquidityUsd p < minLiquidityUSD then True
      else if p_VolumeM5 p < minVolume5mUSD then True
      else if createdAtOf p > minTime then True
      else if parseFloat (p_PriceNative p) (- 1) \<le> 0 then True
      else False)"

definition tokenInfoOf :: "pair \<Rightarrow> real \<Rightarrow> tokenInfo" where
  "tokenInfoOf p ratio =
     \<lparr> PairAddress = p_PairAddress p,
       BaseTokenSymbol = t_Symbol (p_BaseToken p),
       BaseTokenAddr = t_Address (p_BaseToken p),
       QuoteTokenSymbol = t_Symbol (p_QuoteToken p),
       QuoteTokenAddr = t_Address (p_QuoteToken p),
       PairCreatedAt = createdAtOf p,
       PriceNative = parseFloat (p_PriceNative p) (- 1),
       PriceUSD = parseFloat (p_PriceUsd p) 0,
       LiquidityUSD = p_LiquidityUsd p,
       PriceChangeM5 = p_PriceChangeM5 p,
       PriceChangeH1 = p_PriceChangeH1 p,
       VolumeM5 = p_VolumeM5 p,
       M5BuySellRatio = ratio,
       PairURL = p_URL p,
       NormM5Change = 0, NormH1Change = 0, NormM5Volume = 0,
       NormM5BuySellRatio = 0, NormLiquidity = 0, Score = 0 \<rparr>"

fun processPairs ::
  "int \<Rightarrow> pair list \<Rightarrow> tokenInfo list \<Rightarrow> (string \<rightharpoonup> tokenInfo)
     \<Rightarrow> (tokenInfo list \<times> (string \<rightharpoonup> tokenInfo)) option" where
  "processPairs minTime [] candidates currentPairData = Some (candidates, currentPairData)"
| "processPairs minTime (p # pairs) candidates currentPairData =
     (if skipPair minTime p then processPairs minTime pairs candidates currentPairData
      else case calculateBuySellRatio (Buys (p_TxnsM5 p)) (Sells (p_TxnsM5 p)) of
             None \<Rightarrow> None
           | Some ratio \<Rightarrow>
               processPairs minTime pairs (candidates @ [tokenInfoOf p ratio])
                 (currentPairData(p_PairAddress p \<mapsto> tokenInfoOf p ratio)))"

subsection \<open>Exit logic\<close>

text \<open>
  The chain of exit conditions, on the holding whose peak price has been updated.
\<close>

definition exitReason :: "int \<Rightarrow> currentHolding \<Rightarrow> tokenInfo \<Rightarrow> sellReason option" where
  "exitReason now h currentData =
     (let currentPrice = PriceNative currentData;
          liquidityThreshold = h_EntryLiquidityUSD h * (1 - liquidityDropPercent);
          trailingStopPrice = h_PeakPriceNative h * (1 - trailingStopLossPercent);
          takeProfitPrice = h_EntryPriceNative h * takeProfitThreshold
      in if LiquidityUSD currentData < liquidityThreshold
           then Some (LiquidityDrop liquidityThreshold)
         else if currentPrice \<le> trailingStopPrice
           then Some (TrailingStopLoss trailingStopPrice)
         else if currentPrice \<ge> takeProfitPrice
           then Some TakeProfit
         else if PriceChangeM5 currentData < momentumFadeExitM5
                 \<and> now - h_EntryTime h > fiveMinutes_ns
           then Some MomentumFade
         else None)"

text \<open>The block \<^verbatim>\<open>if sellReason != ""\<close>: the SELL.\<close>

definition executeSell ::
  "int \<Rightarrow> tradeState \<Rightarrow> sellReason \<Rightarrow> real \<Rightarrow> tradeState \<times> event list" where
  "executeSell now st reason sellPrice =
     (let h = holding st; w = wallet st;
          solReceivedGross = h_AmountToken h * sellPrice;
          feeAmount = solReceivedGross * simulatedFeePercent;
          solReceivedNet = solReceivedGross - feeAmount;
          initialBuyCostBasis = tradeSizeSOL;
          profitLoss = solReceivedNet - initialBuyCostBasis;
          w' = w\<lparr> SOLBalance := SOLBalance w + solReceivedNet,
                  TotalFeesPaid := TotalFeesPaid w + feeAmount,
                  TradesMade := TradesMade w + 1,
                  ProfitableTrades :=
                    (if profitLoss > 0 then ProfitableTrades w + 1 else ProfitableTrades w) \<rparr>;
          tradeLog = \<lparr> tl_Timestamp = now, tl_Action = ''SELL'',
                       tl_Symbol = h_BaseTokenSymbol h, tl_PairAddress = h_PairAddress h,
                       tl_SOLAmount = solReceivedGross, tl_TokenAmount = h_AmountToken h,
                       tl_PriceNative = sellPrice, tl_FeeSOL = feeAmount,
                       tl_ProfitLossSOL = profitLoss, tl_Reason = Some reason \<rparr>
      in (\<lparr> wallet = w', holding = h\<lparr> h_Active := False \<rparr> \<rparr>,
          [SellSignal (h_BaseTokenSymbol h) reason, TradeLogged tradeLog]))"

text \<open>The update of the peak price for the trailing stop.\<close>

definition updatePeak :: "currentHolding \<Rightarrow> tokenInfo \<Rightarrow> currentHolding" where
  "updatePeak h currentData =
     h\<lparr> h_PeakPriceNative := max (h_PeakPriceNative h) (PriceNative currentData) \<rparr>"

text \<open>
  Step 4 of \<^verbatim>\<open>runScan\<close>. The third component is \<^verbatim>\<open>walletUpdated\<close>.
\<close>

definition exitLogic ::
  "int \<Rightarrow> (string \<rightharpoonup> tokenInfo) \<Rightarrow> tradeState \<Rightarrow> tradeState \<times> event list \<times> bool" where
  "exitLogic now currentPairData st =
     (if h_Active (holding st) then
        (case currentPairData (h_PairAddress (holding st)) of
           None \<Rightarrow>
             (st, [PairDataNotFound (h_BaseTokenSymbol (holding st)) (h_PairAddress (holding st))],
              False)
         | Some currentData \<Rightarrow>
             (let st1 = st\<lparr> holding := updatePeak (holding st) currentData \<rparr>
              in case exitReason now (holding st1) currentData of
                   Some reason \<Rightarrow>
                     (let (st2, evs) = executeSell now st1 reason (PriceNative currentData)
                      in (st2, evs, True))
                 | None \<Rightarrow> (st1, [HoldingStatus (holding st1) currentData], False)))
      else (st, [], False))"

subsection \<open>Entry logic\<close>

text \<open>
  The \<^verbatim>\<open>less\<close> function handed to \<^verbatim>\<open>sort.Slice\<close>. The library routine itself is a
  parameter \<open>sortSlice\<close> of the model: it takes \<^verbatim>\<open>less\<close> and the slice and returns the
  slice as it stands afterwards.
\<close>

definition scoreLess :: "tokenInfo \<Rightarrow> tokenInfo \<Rightarrow> bool" where
  "scoreLess a b = (Score a > Score b)"

definition topScorersCount :: nat where "topScorersCount = 10"

definition printTopScorers :: "tokenInfo list \<Rightarrow> event list" where
  "printTopScorers scoredCandidates = [TopScorers (take topScorersCount scoredCandidates)]"

text \<open>The block that opens the position: the BUY.\<close>

definition executeBuy ::
  "int \<Rightarrow> tradeState \<Rightarrow> tokenInfo \<Rightarrow> real \<Rightarrow> real \<Rightarrow> real \<Rightarrow> tradeState \<times> event list" where
  "executeBuy now st topCandidate tokenAmountToBuy feeAmount solToSpend =
     (let w = wallet st;
          entryPrice = PriceNative topCandidate;
          w' = w\<lparr> SOLBalance := SOLBalance w - solToSpend,
                  TotalFeesPaid := TotalFeesPaid w + feeAmount \<rparr>;
          h' = \<lparr> h_Active = True,
                 h_BaseTokenSymbol = BaseTokenSymbol topCandidate,
                 h_BaseTokenAddr = BaseTokenAddr topCandidate,
                 h_QuoteTokenSymbol = QuoteTokenSymbol topCandidate,
                 h_QuoteTokenAddr = QuoteTokenAddr topCandidate,
                 h_PairAddress = PairAddress topCandidate,
                 h_AmountToken = tokenAmountToBuy,
                 h_EntryPriceNative = entryPrice,
                 h_EntryTime = now,
                 h_EntryLiquidityUSD = LiquidityUSD topCandidate,
                 h_PeakPriceNative = entryPrice \<rparr>;
          tradeLog = \<lparr> tl_Timestamp = now, tl_Action = ''BUY'',
                       tl_Symbol = h_BaseTokenSymbol h', tl_PairAddress = h_PairAddress h',
                       tl_SOLAmount = tradeSizeSOL, tl_TokenAmount = h_AmountToken h',
                       tl_PriceNative = h_EntryPriceNative h', tl_FeeSOL = feeAmount,
                       tl_ProfitLossSOL = 0, tl_Reason = None \<rparr>
      in (\<lparr> wallet = w', holding = h' \<rparr>, [TradeLogged tradeLog]))"

text \<open>
  Step 5 of \<^verbatim>\<open>runScan\<close>. \<open>None\<close> is a run-time panic (\<^verbatim>\<open>scoredCandidates[0]\<close> on an
  empty slice) or a token amount that is not finite.
\<close>

definition entryLogic ::
  "((tokenInfo \<Rightarrow> tokenInfo \<Rightarrow> bool) \<Rightarrow> tokenInfo list \<Rightarrow> tokenInfo list)
     \<Rightarrow> int \<Rightarrow> tokenInfo list \<Rightarrow> tradeState \<Rightarrow> (tradeState \<times> event list \<times> bool) option" where
  "entryLogic sortSlice now scoredCandidates st =
     (if \<not> h_Active (holding st) \<and> length scoredCandidates > 0 then
        (case sortSlice scoreLess scoredCandidates of
           [] \<Rightarrow> None
         | topCandidate # rest \<Rightarrow>
             (if Score topCandidate \<ge> minScoreToEnter \<and> SOLBalance (wallet st) \<ge> tradeSizeSOL
              then
                (case fdiv tradeSizeSOL (PriceNative topCandidate) of
                   None \<Rightarrow> None
                 | Some tokenAmountToBuy \<Rightarrow>
                     (let feeAmount = tradeSizeSOL * simulatedFeePercent;
                          solToSpend = tradeSizeSOL + feeAmount
                      in if SOLBalance (wallet st) < solToSpend then
                           Some (st, printTopScorers (topCandidate # rest)
                                       @ [BuySignal (BaseTokenSymbol topCandidate) (Score topCandidate),
                                          InsufficientSOL (SOLBalance (wallet st)) solToSpend],
                                 False)
                         else
                           (let (st', evs) =
                                  executeBuy now st topCandidate tokenAmountToBuy feeAmount solToSpend
                            in Some (st', printTopScorers (topCandidate # rest)
                                            @ [BuySignal (BaseTokenSymbol topCandidate)
                                                 (Score topCandidate)] @ evs,
                                     True))))
              else Some (st, printTopScorers (topCandidate # rest)
                               @ [NoBuy (BaseTokenSymbol topCandidate) (Score topCandidate)],
                         False)))
      else if length scoredCandidates = 0 \<and> \<not> h_Active (holding st) then
        Some (st, [NoCandidates], False)
      else Some (st, [], False))"

subsection \<open>One cycle\<close>

text \<open>
  \<^verbatim>\<open>runScan\<close>. The second argument is what \<^verbatim>\<open>fetchDexScreenerPairs\<close> returned: an
  error (\<open>Inl\<close>) or the pairs.
\<close>

definition runScan ::
  "((tokenInfo \<Rightarrow> tokenInfo \<Rightarrow> bool) \<Rightarrow> tokenInfo list \<Rightarrow> tokenInfo list)
     \<Rightarrow> int \<Rightarrow> string + pair list \<Rightarrow> tradeState \<Rightarrow> (tradeState \<times> event list) option" where
  "runScan sortSlice now fetched st =
     (case fetched of
        Inl err \<Rightarrow> Some (st, [FetchErrorSkip err])
      | Inr pairs \<Rightarrow>
          (case processPairs (now - hour_ns) pairs [] Map.empty of
             None \<Rightarrow> None
           | Some (candidates, currentPairData) \<Rightarrow>
               (case calculateScores candidates of
                  None \<Rightarrow> None
                | Some scoredCandidates \<Rightarrow>
                    (let (st1, evs1, sold) = exitLogic now currentPairData st
                     in case entryLogic sortSlice now scoredCandidates st1 of
                          None \<Rightarrow> None
                        | Some (st2, evs2, bought) \<Rightarrow>
                            Some (st2, evs1 @ evs2
                                       @ (if sold \<or> bought then logWalletState now st2 else []))))))"

text \<open>
  What a list of events holds: the entries appended to \<^verbatim>\<open>trades.json\<close> and their
  actions, and the entries appended to \<^verbatim>\<open>wallet_log.json\<close>, in order.
\<close>

fun tradesLogged :: "event list \<Rightarrow> tradeLogEntry list" where
  "tradesLogged [] = []"
| "tradesLogged (TradeLogged t # evs) = t # tradesLogged evs"
| "tradesLogged (e # evs) = tradesLogged evs"

definition actions :: "event list \<Rightarrow> string list" where
  "actions evs = map tl_Action (tradesLogged evs)"

fun walletLogged :: "event list \<Rightarrow> walletLogEntry list" where
  "walletLogged [] = []"
| "walletLogged (WalletLogged w # evs) = w # walletLogged evs"
| "walletLogged (e # evs) = walletLogged evs"

subsection \<open>Reference definitions\<close>

text \<open>
  The buy/sell ratio in the words of the specification, on unbounded integers:
  \<^verbatim>\<open>buys / (buys + sells)\<close>, and 0.5 when no transactions exist.
\<close>

definition buySellRatio_spec :: "int \<Rightarrow> int \<Rightarrow> real" where
  "buySellRatio_spec buys sells =
     (if buys + sells = 0 then 1 / 2 else real_of_int buys / real_of_int (buys + sells))"

text \<open>
  Min-max normalization in the words of the specification: \<^verbatim>\<open>(value - min) / (max - min)\<close>,
  and 0 when max equals min.
\<close>

definition normalize_spec :: "real \<Rightarrow> real \<Rightarrow> real \<Rightarrow> real" where
  "normalize_spec v mn mx = (if mx = mn then 0 else (v - mn) / (mx - mn))"


text \<open>
  The documented contract of \<^verbatim>\<open>sort.Slice\<close> for the \<^verbatim>\<open>less\<close> of \<^verbatim>\<open>runScan\<close>: the slice
  is permuted, and afterwards no element is \<^verbatim>\<open>less\<close> than one before it. The
  documentation adds that the sort is not guaranteed to be stable.
\<close>

definition sortSlice_contract ::
  "((tokenInfo \<Rightarrow> tokenInfo \<Rightarrow> bool) \<Rightarrow> tokenInfo list \<Rightarrow> tokenInfo list) \<Rightarrow> bool" where
  "sortSlice_contract sortSlice =
     (\<forall>xs. mset (sortSlice scoreLess xs) = mset xs
           \<and> sorted_wrt (\<lambda>a b. \<not> scoreLess b a) (sortSlice scoreLess xs))"

text \<open>
  Two sorting routines that meet the contract: insertion sort, which keeps equal
  elements in their order, and insertion sort of the reversed slice, which does not.
\<close>

fun insertSorted :: "('a \<Rightarrow> 'a \<Rightarrow> bool) \<Rightarrow> 'a \<Rightarrow> 'a list \<Rightarrow> 'a list" where
  "insertSorted lessf x [] = [x]"
| "insertSorted lessf x (y # ys) =
     (if lessf y x then y # insertSorted lessf x ys else x # y # ys)"

fun insertionSort :: "('a \<Rightarrow> 'a \<Rightarrow> bool) \<Rightarrow> 'a list \<Rightarrow> 'a list" where
  "insertionSort lessf [] = []"
| "insertionSort lessf (x # xs) = insertSorted lessf x (insertionSort lessf xs)"


subsection \<open>Sample data\<close>

text \<open>A candidate with the given pair address, native price, 5-minute change and liquidity.\<close>

definition sampleInfo :: "string \<Rightarrow> real \<Rightarrow> real \<Rightarrow> real \<Rightarrow> tokenInfo" where
  "sampleInfo addr price m5 liq =
     \<lparr> PairAddress = addr, BaseTokenSymbol = addr, BaseTokenAddr = addr,
       QuoteTokenSymbol = ''SOL'', QuoteTokenAddr = ''So11'',
       PairCreatedAt = 0, PriceNative = price, PriceUSD = 150,
       LiquidityUSD = liq, PriceChangeM5 = m5, PriceChangeH1 = 1,
       VolumeM5 = 1000, M5BuySellRatio = 1 / 2, PairURL = [],
       NormM5Change = 0, NormH1Change = 0, NormM5Volume = 0,
       NormM5BuySellRatio = 0, NormLiquidity = 0, Score = 0 \<rparr>"


text \<open>
  A wallet with the given balance, and a position in pair \<open>A\<close>: one token bought at
  price 1 and liquidity 5000 at time 0, with the given peak price.
\<close>

definition sampleWallet :: "real \<Rightarrow> paperWallet" where
  "sampleWallet bal =
     \<lparr> SOLBalance = bal, InitialSOL = 10, TradesMade = 0, ProfitableTrades = 0,
       TotalFeesPaid = 0 \<rparr>"

definition sampleHolding :: "real \<Rightarrow> currentHolding" where
  "sampleHolding peak =
     \<lparr> h_Active = True, h_BaseTokenSymbol = ''A'', h_BaseTokenAddr = ''A'',
       h_QuoteTokenSymbol = ''SOL'', h_QuoteTokenAddr = ''So11'', h_PairAddress = ''A'',
       h_AmountToken = 1, h_EntryPriceNative = 1, h_EntryTime = 0,
       h_EntryLiquidityUSD = 5000, h_PeakPriceNative = peak \<rparr>"

definition heldState :: "real \<Rightarrow> real \<Rightarrow> tradeState" where
  "heldState bal peak = \<lparr> wallet = sampleWallet bal, holding = sampleHolding peak \<rparr>"

definition idleState :: "real \<Rightarrow> tradeState" where
  "idleState bal =
     \<lparr> wallet = sampleWallet bal, holding = (sampleHolding 1)\<lparr> h_Active := False \<rparr> \<rparr>"

text \<open>A fetched pair against SOL, created at the epoch, with 5-minute volume 1000.\<close>

definition samplePair :: "string \<Rightarrow> real \<Rightarrow> real \<Rightarrow> real \<Rightarrow> 64 word \<Rightarrow> pair" where
  "samplePair addr price m5 liq buys =
     \<lparr> p_URL = [], p_PairAddress = addr,
       p_BaseToken = \<lparr> t_Address = addr, t_Name = addr, t_Symbol = addr \<rparr>,
       p_QuoteToken = \<lparr> t_Address = ''So11'', t_Name = ''Wrapped SOL'', t_Symbol = ''SOL'' \<rparr>,
       p_PriceNative = Some price, p_PriceUsd = Some 150,
       p_TxnsM5 = \<lparr> Buys = buys, Sells = 1 \<rparr>,
       p_VolumeM5 = 1000, p_PriceChangeM5 = m5, p_PriceChangeH1 = m5,
       p_LiquidityUsd = liq, p_PairCreatedAt = 0 \<rparr>"

text \<open>A batch that holds pair \<open>A\<close> alone, at the given price and liquidity.\<close>

definition sampleBatchA :: "real \<Rightarrow> real \<Rightarrow> string \<rightharpoonup> tokenInfo" where
  "sampleBatchA price liq = [''A'' \<mapsto> sampleInfo ''A'' price 1 liq]"

text \<open>
  A fetched batch of two pairs: \<open>A\<close> at price 1.06, and \<open>B\<close>, which is ahead of \<open>A\<close> in
  every scored metric.
\<close>

definition sellBuyBatch :: "pair list" where
  "sellBuyBatch = [samplePair ''A'' (106 / 100) 1 5000 1, samplePair ''B'' 2 5 9000 3]"

text \<open>Two scored candidates: \<open>B\<close> with score 1 after \<open>A\<close> with score 0.\<close>

definition scoredPair :: "tokenInfo list" where
  "scoredPair = [sampleInfo ''A'' 1 1 5000, (sampleInfo ''B'' 2 5 9000)\<lparr> Score := 1 \<rparr>]"


text \<open>A clock reading more than an hour after the epoch.\<close>

definition sampleNow :: int where
  "sampleNow = 2 * hour_ns"

section \<open>Properties\<close>

subsection \<open>Numbers\<close>

lemma float64_eq_0_iff: "float64 n = 0 \<longleftrightarrow> n = 0"
  by (simp add: float64_def signed_eq_0_iff)

text \<open>
  C10. The profitable-trade percentage is defined for every wallet state: it is 0 when no
  trade was made and otherwise profitable trades / trades made, times 100; the division
  is reached only with a divisor different from zero, so a result is always returned.
\<close>

theorem profitabilityPercent_total:
  "profitabilityPercent w =
     Some (if TradesMade w = 0 then 0
           else float64 (ProfitableTrades w) / float64 (TradesMade w) * 100)"
  by (simp add: profitabilityPercent_def fdiv_def float64_eq_0_iff)

subsection \<open>The buy/sell ratio\<close>

lemma sint_add_nowrap:
  fixes a b :: "64 word"
  assumes "0 \<le> sint a" and "0 \<le> sint b" and "sint a + sint b < 2 ^ 63"
  shows "sint (a + b) = sint a + sint b"
  using assms by (simp add: sint_word_ariths signed_take_bit_int_eq_self)

lemma calculateBuySellRatio_total: "calculateBuySellRatio buys sells \<noteq> None"
  by (cases "buys + sells = 0")
    (simp_all add: calculateBuySellRatio_def fdiv_def float64_eq_0_iff Let_def)

text \<open>
  C8, as amended. For all non-negative buy and sell counts whose sum does not exceed the
  largest 64-bit integer, the buy/sell ratio is returned, it is buys / (buys + sells)
  when there are transactions and 0.5 when there are none, and it lies in [0,1].
\<close>

theorem calculateBuySellRatio_nowrap:
  assumes "0 \<le> sint buys" and "0 \<le> sint sells" and "sint buys + sint sells < 2 ^ 63"
  shows "calculateBuySellRatio buys sells = Some (buySellRatio_spec (sint buys) (sint sells))
         \<and> 0 \<le> buySellRatio_spec (sint buys) (sint sells)
         \<and> buySellRatio_spec (sint buys) (sint sells) \<le> 1"
proof -
  have sum: "sint (buys + sells) = sint buys + sint sells"
    using assms by (rule sint_add_nowrap)
  have zero: "buys + sells = 0 \<longleftrightarrow> sint buys + sint sells = 0"
    using sum signed_eq_0_iff [of "buys + sells", where ?'a = int] by simp
  show ?thesis
  proof (cases "sint buys + sint sells = 0")
    case True
    then show ?thesis
      by (simp add: calculateBuySellRatio_def zero buySellRatio_spec_def)
  next
    case False
    then have pos: "0 < real_of_int (sint buys + sint sells)"
      using assms by linarith
    have le: "sint buys \<le> sint buys + sint sells"
      using assms by linarith
    have "real_of_int (sint buys) \<le> real_of_int (sint buys + sint sells)"
      unfolding of_int_le_iff by (fact le)
    then have "real_of_int (sint buys) / real_of_int (sint buys + sint sells) \<le> 1"
      using pos by (simp add: divide_le_eq_1)
    moreover have "0 \<le> real_of_int (sint buys)"
      unfolding of_int_0_le_iff by (fact assms(1))
    then have "0 \<le> real_of_int (sint buys) / real_of_int (sint buys + sint sells)"
      using pos by (rule divide_nonneg_pos)
    ultimately show ?thesis
      using False pos
      by (simp add: calculateBuySellRatio_def zero fdiv_def float64_def sum buySellRatio_spec_def)
  qed
qed

theorem calculateBuySellRatio_nowrap_witness:
  "0 \<le> sint (3 :: 64 word) \<and> 0 \<le> sint (1 :: 64 word)
   \<and> sint (3 :: 64 word) + sint (1 :: 64 word) < 2 ^ 63
   \<and> calculateBuySellRatio 3 1 = Some (3 / 4)"
  using calculateBuySellRatio_nowrap [of 3 1] by (simp add: buySellRatio_spec_def)

text \<open>
  C8, as stated, fails where the sum of the two counts wraps around: for
  \<open>2\<^sup>6\<^sup>2\<close> buys and \<open>2\<^sup>6\<^sup>2\<close> sells the total is \<open>- 2\<^sup>6\<^sup>3\<close> and the ratio is \<open>- 0.5\<close>.
\<close>

theorem calculateBuySellRatio_wrap_counterexample:
  "0 \<le> sint (2 ^ 62 :: 64 word)
   \<and> calculateBuySellRatio (2 ^ 62) (2 ^ 62) = Some (- (1 / 2))"
  by (simp add: calculateBuySellRatio_def fdiv_def float64_def)

subsection \<open>Scoring\<close>





lemma normalize_eq_spec: "normalize v mn mx = Some (normalize_spec v mn mx)"
  by (simp add: normalize_def fdiv_def normalize_spec_def)


lemma scoreCandidate_Some:
  "scoreCandidate b c =
     Some (c\<lparr> NormM5Change := normalize_spec (PriceChangeM5 c) (minM5 b) (maxM5 b),
              NormH1Change := normalize_spec (PriceChangeH1 c) (minH1 b) (maxH1 b),
              NormM5Volume := normalize_spec (VolumeM5 c) (minVol b) (maxVol b),
              NormM5BuySellRatio := normalize_spec (M5BuySellRatio c) (minRatio b) (maxRatio b),
              NormLiquidity := normalize_spec (LiquidityUSD c) (minLiq b) (maxLiq b),
              Score := normalize_spec (PriceChangeM5 c) (minM5 b) (maxM5 b) * wM5Change
                       + normalize_spec (PriceChangeH1 c) (minH1 b) (maxH1 b) * wH1Change
                       + normalize_spec (VolumeM5 c) (minVol b) (maxVol b) * wM5Volume
                       + normalize_spec (M5BuySellRatio c) (minRatio b) (maxRatio b) * wM5BuySellRatio
                       + normalize_spec (LiquidityUSD c) (minLiq b) (maxLiq b) * wLiquidity \<rparr>)"
  by (simp add: scoreCandidate_def normalize_eq_spec)

lemma scoreAll_Some: "scoreAll b cs = Some (map (\<lambda>c. the (scoreCandidate b c)) cs)"
  by (induction cs) (simp_all add: scoreCandidate_Some)

lemma calculateScores_Some:
  "2 \<le> length batch \<Longrightarrow>
   calculateScores batch =
     Some (map (\<lambda>c. the (scoreCandidate (findBounds (hd batch) (tl batch)) c)) batch)"
  by (cases batch) (auto simp add: calculateScores_def scoreAll_Some)

lemma calculateScores_total: "calculateScores batch \<noteq> None"
  by (cases batch) (simp_all add: calculateScores_def scoreAll_Some)




subsection \<open>The sorting routines and the contract\<close>

lemma mset_insertSorted: "mset (insertSorted lessf x ys) = add_mset x (mset ys)"
  by (induction ys) simp_all

lemma mset_insertionSort: "mset (insertionSort lessf xs) = mset xs"
  by (induction xs) (simp_all add: mset_insertSorted)

lemma set_insertSorted: "set (insertSorted lessf x ys) = insert x (set ys)"
  by (induction ys) auto

lemma sorted_insertSorted:
  "sorted_wrt (\<lambda>a b. \<not> scoreLess b a) ys \<Longrightarrow>
   sorted_wrt (\<lambda>a b. \<not> scoreLess b a) (insertSorted scoreLess x ys)"
  by (induction ys) (auto simp add: set_insertSorted scoreLess_def)

lemma sorted_insertionSort:
  "sorted_wrt (\<lambda>a b. \<not> scoreLess b a) (insertionSort scoreLess xs)"
  by (induction xs) (simp_all add: sorted_insertSorted)

lemma insertionSort_contract: "sortSlice_contract insertionSort"
  by (simp add: sortSlice_contract_def mset_insertionSort sorted_insertionSort)


lemma contract_set: "sortSlice_contract srt \<Longrightarrow> set (srt scoreLess xs) = set xs"
  unfolding sortSlice_contract_def using mset_eq_setD by blast

lemma contract_length: "sortSlice_contract srt \<Longrightarrow> length (srt scoreLess xs) = length xs"
  unfolding sortSlice_contract_def using mset_eq_length by blast

subsection \<open>The filter and the scores keep prices positive\<close>

lemma processPairs_total: "processPairs minTime pairs cands cpd \<noteq> None"
proof (induction pairs arbitrary: cands cpd)
  case Nil
  then show ?case by simp
next
  case (Cons p pairs)
  obtain r where "calculateBuySellRatio (Buys (p_TxnsM5 p)) (Sells (p_TxnsM5 p)) = Some r"
    using calculateBuySellRatio_total by blast
  then show ?case using Cons.IH by simp
qed

lemma skipPair_price_pos: "\<not> skipPair minTime p \<Longrightarrow> 0 < parseFloat (p_PriceNative p) (- 1)"
  unfolding skipPair_def by (metis not_le)

lemma processPairs_price_pos:
  assumes "processPairs minTime pairs cands cpd = Some (cands', cpd')"
    and "\<forall>c \<in> set cands. 0 < PriceNative c"
  shows "\<forall>c \<in> set cands'. 0 < PriceNative c"
  using assms
proof (induction pairs arbitrary: cands cpd)
  case Nil
  then show ?case by simp
next
  case (Cons p pairs)
  show ?case
  proof (cases "skipPair minTime p")
    case True
    then have "processPairs minTime pairs cands cpd = Some (cands', cpd')"
      using Cons.prems(1) by simp
    then show ?thesis
      using Cons.prems(2) by (rule Cons.IH)
  next
    case False
    then have pos: "0 < parseFloat (p_PriceNative p) (- 1)"
      by (rule skipPair_price_pos)
    obtain r where r: "calculateBuySellRatio (Buys (p_TxnsM5 p)) (Sells (p_TxnsM5 p)) = Some r"
      using calculateBuySellRatio_total by blast
    have step: "processPairs minTime pairs (cands @ [tokenInfoOf p r])
                  (cpd(p_PairAddress p \<mapsto> tokenInfoOf p r)) = Some (cands', cpd')"
      using Cons.prems(1) False r by simp
    have "PriceNative (tokenInfoOf p r) = parseFloat (p_PriceNative p) (- 1)"
      by (simp add: tokenInfoOf_def)
    then have "\<forall>c \<in> set (cands @ [tokenInfoOf p r]). 0 < PriceNative c"
      using Cons.prems(2) pos by simp
    with step show ?thesis
      by (rule Cons.IH)
  qed
qed

lemma calculateScores_price:
  assumes "calculateScores cands = Some scored"
  shows "PriceNative ` set scored = PriceNative ` set cands"
proof (cases "length cands < 2")
  case True
  then have "scored = map (\<lambda>c. c\<lparr>Score := 0\<rparr>) cands"
    using assms by (simp add: calculateScores_def)
  then show ?thesis by (simp add: image_image)
next
  case False
  then have "scored = map (\<lambda>c. the (scoreCandidate (findBounds (hd cands) (tl cands)) c)) cands"
    using assms calculateScores_Some [of cands] by simp
  then show ?thesis by (simp add: image_image scoreCandidate_Some)
qed

subsection \<open>Events, exit logic and entry logic, case by case\<close>

lemma tradesLogged_append: "tradesLogged (xs @ ys) = tradesLogged xs @ tradesLogged ys"
  by (induction xs rule: tradesLogged.induct) simp_all

lemma walletLogged_append: "walletLogged (xs @ ys) = walletLogged xs @ walletLogged ys"
  by (induction xs rule: walletLogged.induct) simp_all

lemma tradesLogged_logWalletState: "tradesLogged (logWalletState now st) = []"
  by (simp add: logWalletState_def)


lemma exitLogic_idle:
  "\<not> h_Active (holding st) \<Longrightarrow> exitLogic now cpd st = (st, [], False)"
  by (simp add: exitLogic_def)

lemma exitLogic_absent:
  "h_Active (holding st) \<Longrightarrow> cpd (h_PairAddress (holding st)) = None \<Longrightarrow>
   exitLogic now cpd st =
     (st, [PairDataNotFound (h_BaseTokenSymbol (holding st)) (h_PairAddress (holding st))], False)"
  by (simp add: exitLogic_def)

lemma exitLogic_hold:
  "h_Active (holding st) \<Longrightarrow> cpd (h_PairAddress (holding st)) = Some d \<Longrightarrow>
   exitReason now (updatePeak (holding st) d) d = None \<Longrightarrow>
   exitLogic now cpd st =
     (st\<lparr> holding := updatePeak (holding st) d \<rparr>,
      [HoldingStatus (updatePeak (holding st) d) d], False)"
  by (simp add: exitLogic_def)

lemma exitLogic_sell:
  "h_Active (holding st) \<Longrightarrow> cpd (h_PairAddress (holding st)) = Some d \<Longrightarrow>
   exitReason now (updatePeak (holding st) d) d = Some r \<Longrightarrow>
   exitLogic now cpd st =
     (fst (executeSell now (st\<lparr> holding := updatePeak (holding st) d \<rparr>) r (PriceNative d)),
      snd (executeSell now (st\<lparr> holding := updatePeak (holding st) d \<rparr>) r (PriceNative d)),
      True)"
  by (simp add: exitLogic_def split_beta Let_def)

lemma executeSell_holding:
  "holding (fst (executeSell now st r p)) = (holding st)\<lparr> h_Active := False \<rparr>"
  by (simp add: executeSell_def Let_def)

lemma executeSell_trades:
  "map tl_Action (tradesLogged (snd (executeSell now st r p))) = [''SELL'']"
  "map tl_Reason (tradesLogged (snd (executeSell now st r p))) = [Some r]"
  "map tl_SOLAmount (tradesLogged (snd (executeSell now st r p))) = [h_AmountToken (holding st) * p]"
  "walletLogged (snd (executeSell now st r p)) = []"
  by (simp_all add: executeSell_def Let_def)

lemma entryLogic_held:
  "h_Active (holding st) \<Longrightarrow> entryLogic srt now scored st = Some (st, [], False)"
  by (simp add: entryLogic_def)

lemma entryLogic_empty:
  "\<not> h_Active (holding st) \<Longrightarrow> entryLogic srt now [] st = Some (st, [NoCandidates], False)"
  by (simp add: entryLogic_def)

lemma entryLogic_nobuy:
  assumes "\<not> h_Active (holding st)" and "scored \<noteq> []"
    and "srt scoreLess scored = topc # rest"
    and "\<not> (Score topc \<ge> minScoreToEnter \<and> SOLBalance (wallet st) \<ge> tradeSizeSOL)"
  shows "entryLogic srt now scored st =
           Some (st, printTopScorers (topc # rest)
                      @ [NoBuy (BaseTokenSymbol topc) (Score topc)], False)"
  using assms by (auto simp add: entryLogic_def)

lemma entryLogic_insufficient:
  assumes "\<not> h_Active (holding st)" and "scored \<noteq> []"
    and "srt scoreLess scored = topc # rest"
    and "Score topc \<ge> minScoreToEnter" and "SOLBalance (wallet st) \<ge> tradeSizeSOL"
    and "PriceNative topc \<noteq> 0"
    and "SOLBalance (wallet st) < tradeSizeSOL + tradeSizeSOL * simulatedFeePercent"
  shows "entryLogic srt now scored st =
           Some (st, printTopScorers (topc # rest)
                      @ [BuySignal (BaseTokenSymbol topc) (Score topc),
                         InsufficientSOL (SOLBalance (wallet st))
                           (tradeSizeSOL + tradeSizeSOL * simulatedFeePercent)], False)"
  using assms by (simp add: entryLogic_def fdiv_def Let_def)

lemma entryLogic_buy:
  assumes "\<not> h_Active (holding st)" and "scored \<noteq> []"
    and "srt scoreLess scored = topc # rest"
    and "Score topc \<ge> minScoreToEnter" and "SOLBalance (wallet st) \<ge> tradeSizeSOL"
    and "PriceNative topc \<noteq> 0"
    and "\<not> SOLBalance (wallet st) < tradeSizeSOL + tradeSizeSOL * simulatedFeePercent"
  shows "entryLogic srt now scored st =
           Some (fst (executeBuy now st topc (tradeSizeSOL / PriceNative topc)
                        (tradeSizeSOL * simulatedFeePercent)
                        (tradeSizeSOL + tradeSizeSOL * simulatedFeePercent)),
                 printTopScorers (topc # rest)
                   @ [BuySignal (BaseTokenSymbol topc) (Score topc)]
                   @ snd (executeBuy now st topc (tradeSizeSOL / PriceNative topc)
                        (tradeSizeSOL * simulatedFeePercent)
                        (tradeSizeSOL + tradeSizeSOL * simulatedFeePercent)), True)"
  using assms by (simp add: entryLogic_def fdiv_def Let_def split_beta)

lemma executeBuy_facts:
  "SOLBalance (wallet (fst (executeBuy now st topc amt fee spend))) = SOLBalance (wallet st) - spend"
  "TotalFeesPaid (wallet (fst (executeBuy now st topc amt fee spend))) = TotalFeesPaid (wallet st) + fee"
  "TradesMade (wallet (fst (executeBuy now st topc amt fee spend))) = TradesMade (wallet st)"
  "h_Active (holding (fst (executeBuy now st topc amt fee spend)))"
  "h_PairAddress (holding (fst (executeBuy now st topc amt fee spend))) = PairAddress topc"
  "h_PeakPriceNative (holding (fst (executeBuy now st topc amt fee spend))) = PriceNative topc"
  "h_EntryPriceNative (holding (fst (executeBuy now st topc amt fee spend))) = PriceNative topc"
  "h_AmountToken (holding (fst (executeBuy now st topc amt fee spend))) = amt"
  "map tl_Action (tradesLogged (snd (executeBuy now st topc amt fee spend))) = [''BUY'']"
  "walletLogged (snd (executeBuy now st topc amt fee spend)) = []"
  by (simp_all add: executeBuy_def Let_def)

lemma printTopScorers_logged:
  "tradesLogged (printTopScorers xs) = []" "walletLogged (printTopScorers xs) = []"
  by (simp_all add: printTopScorers_def)

text \<open>What the entry logic returns, in every case.\<close>

lemma entryLogic_summary:
  assumes "sortSlice_contract srt" and "\<forall>c \<in> set scored. 0 < PriceNative c"
  shows "case entryLogic srt now scored st of
           None \<Rightarrow> False
         | Some (st', evs, bought) \<Rightarrow>
             walletLogged evs = []
             \<and> (bought \<longrightarrow> \<not> h_Active (holding st) \<and> h_Active (holding st')
                   \<and> tradeSizeSOL + tradeSizeSOL * simulatedFeePercent \<le> SOLBalance (wallet st)
                   \<and> SOLBalance (wallet st')
                       = SOLBalance (wallet st) - tradeSizeSOL * (1 + simulatedFeePercent)
                   \<and> actions evs = [''BUY'']
                   \<and> h_PairAddress (holding st') = PairAddress (hd (srt scoreLess scored)))
             \<and> (\<not> bought \<longrightarrow> st' = st \<and> actions evs = [])"
proof (cases "\<not> h_Active (holding st) \<and> scored \<noteq> []")
  case False
  show ?thesis
  proof (cases "h_Active (holding st)")
    case True
    then show ?thesis
      by (simp add: entryLogic_held actions_def)
  next
    case idle: False
    then have "scored = []"
      using False by simp
    then show ?thesis
      using idle by (simp add: entryLogic_empty actions_def)
  qed
next
  case True
  then have idle: "\<not> h_Active (holding st)" and ne: "scored \<noteq> []"
    by simp_all
  have "length (srt scoreLess scored) = length scored"
    using assms(1) by (rule contract_length)
  then obtain topc rest where srt: "srt scoreLess scored = topc # rest"
    using ne by (cases "srt scoreLess scored") auto
  have "topc \<in> set scored"
    using contract_set [OF assms(1), of scored] srt by auto
  then have price: "PriceNative topc \<noteq> 0"
    using assms(2) by auto
  show ?thesis
  proof (cases "Score topc \<ge> minScoreToEnter \<and> SOLBalance (wallet st) \<ge> tradeSizeSOL")
    case False
    then show ?thesis
      using entryLogic_nobuy [where srt = srt and now = now, OF idle ne srt False]
      by (simp add: actions_def tradesLogged_append printTopScorers_logged walletLogged_append)
  next
    case ok: True
    show ?thesis
    proof (cases "SOLBalance (wallet st) < tradeSizeSOL + tradeSizeSOL * simulatedFeePercent")
      case True
      then show ?thesis
        using entryLogic_insufficient [where srt = srt and now = now, OF idle ne srt _ _ price True] ok
        by (simp add: actions_def tradesLogged_append printTopScorers_logged walletLogged_append)
    next
      case False
      then show ?thesis
        using entryLogic_buy [where srt = srt and now = now, OF idle ne srt _ _ price False] ok idle
        by (simp add: actions_def tradesLogged_append printTopScorers_logged
            walletLogged_append executeBuy_facts srt algebra_simps)
    qed
  qed
qed

lemma exitLogic_summary:
  "case exitLogic now cpd st of (st1, evs, sold) \<Rightarrow>
     walletLogged evs = []
     \<and> (sold \<longrightarrow> h_Active (holding st) \<and> \<not> h_Active (holding st1) \<and> actions evs = [''SELL''])
     \<and> (\<not> sold \<longrightarrow> wallet st1 = wallet st
           \<and> (h_Active (holding st1) \<longleftrightarrow> h_Active (holding st)) \<and> actions evs = [])"
proof (cases "h_Active (holding st)")
  case False
  then show ?thesis by (simp add: exitLogic_idle actions_def)
next
  case held: True
  show ?thesis
  proof (cases "cpd (h_PairAddress (holding st))")
    case None
    then show ?thesis using held by (simp add: exitLogic_absent actions_def)
  next
    case (Some d)
    show ?thesis
    proof (cases "exitReason now (updatePeak (holding st) d) d")
      case None
      then show ?thesis
        using held Some by (simp add: exitLogic_hold actions_def updatePeak_def)
    next
      case (Some r)
      then show ?thesis
        using held \<open>cpd (h_PairAddress (holding st)) = Some d\<close>
        by (simp add: exitLogic_sell actions_def executeSell_trades executeSell_holding)
    qed
  qed
qed

lemma processPairs_absent:
  assumes "processPairs minTime pairs cands cpd = Some (cands', cpd')"
    and "cpd a = None"
    and "\<forall>p \<in> set pairs. \<not> skipPair minTime p \<longrightarrow> p_PairAddress p \<noteq> a"
  shows "cpd' a = None"
  using assms
proof (induction pairs arbitrary: cands cpd)
  case Nil
  then show ?case by simp
next
  case (Cons p pairs)
  have rest: "\<forall>q \<in> set pairs. \<not> skipPair minTime q \<longrightarrow> p_PairAddress q \<noteq> a"
    using Cons.prems(3) by simp
  show ?case
  proof (cases "skipPair minTime p")
    case True
    then have "processPairs minTime pairs cands cpd = Some (cands', cpd')"
      using Cons.prems(1) by simp
    then show ?thesis
      using Cons.prems(2) rest by (rule Cons.IH)
  next
    case False
    obtain r where r: "calculateBuySellRatio (Buys (p_TxnsM5 p)) (Sells (p_TxnsM5 p)) = Some r"
      using calculateBuySellRatio_total by blast
    have step: "processPairs minTime pairs (cands @ [tokenInfoOf p r])
                  (cpd(p_PairAddress p \<mapsto> tokenInfoOf p r)) = Some (cands', cpd')"
      using Cons.prems(1) False r by simp
    have "p_PairAddress p \<noteq> a"
      using Cons.prems(3) False by simp
    then have "(cpd(p_PairAddress p \<mapsto> tokenInfoOf p r)) a = None"
      using Cons.prems(2) by simp
    with step show ?thesis
      using rest by (rule Cons.IH)
  qed
qed

text \<open>
  C7. In a cycle in which a position is held and no admitted pair of the fetched batch
  has the address of the held pair, the cycle returns, the whole state (wallet and
  position, with its peak price) is unchanged, no trade and no wallet entry is logged,
  and the one thing signalled is the warning that the pair data was not found; the next
  cycle starts from the same state.
\<close>

theorem held_pair_absent:
  assumes "h_Active (holding st)"
    and "\<forall>p \<in> set pairs. \<not> skipPair (now - hour_ns) p
            \<longrightarrow> p_PairAddress p \<noteq> h_PairAddress (holding st)"
  shows "runScan sortSlice now (Inr pairs) st =
           Some (st, [PairDataNotFound (h_BaseTokenSymbol (holding st))
                        (h_PairAddress (holding st))])"
proof -
  obtain cands cpd where pp: "processPairs (now - hour_ns) pairs [] Map.empty = Some (cands, cpd)"
    using processPairs_total [of "now - hour_ns" pairs "[]" Map.empty] by auto
  have none: "cpd (h_PairAddress (holding st)) = None"
    using pp _ assms(2) by (rule processPairs_absent) simp
  obtain scored where sc: "calculateScores cands = Some scored"
    using calculateScores_total [of cands] by auto
  show ?thesis
    using pp sc assms(1) none
    by (simp add: runScan_def exitLogic_absent entryLogic_held)
qed

theorem held_pair_absent_witness:
  "h_Active (holding (heldState 9 1))
   \<and> map p_PairAddress [samplePair ''B'' 2 5 9000 3] = [''B'']
   \<and> h_PairAddress (holding (heldState 9 1)) = ''A''
   \<and> runScan insertionSort sampleNow (Inr [samplePair ''B'' 2 5 9000 3]) (heldState 9 1)
       = Some (heldState 9 1, [PairDataNotFound ''A'' ''A''])"
proof -
  have a: "h_Active (holding (heldState 9 1))"
    by (simp add: heldState_def sampleHolding_def)
  have b: "\<forall>p \<in> set [samplePair ''B'' 2 5 9000 3].
         \<not> skipPair (sampleNow - hour_ns) p
           \<longrightarrow> p_PairAddress p \<noteq> h_PairAddress (holding (heldState 9 1))"
    by (simp add: heldState_def sampleHolding_def samplePair_def)
  have "runScan insertionSort sampleNow (Inr [samplePair ''B'' 2 5 9000 3]) (heldState 9 1)
       = Some (heldState 9 1, [PairDataNotFound ''A'' ''A''])"
    using held_pair_absent [OF a b, of insertionSort]
    by (simp add: heldState_def sampleHolding_def)
  with a show ?thesis by (simp add: heldState_def sampleHolding_def samplePair_def)
qed



lemmas sample_defs =
  heldState_def idleState_def sampleHolding_def sampleWallet_def sampleInfo_def sampleBatchA_def
  samplePair_def sampleNow_def hour_ns_def fiveMinutes_ns_def

lemmas const_defs =
  tradeSizeSOL_def simulatedFeePercent_def minScoreToEnter_def takeProfitThreshold_def
  trailingStopLossPercent_def momentumFadeExitM5_def liquidityDropPercent_def

lemmas exit_defs = exitLogic_def exitReason_def executeSell_def updatePeak_def Let_def





subsection \<open>One cycle\<close>

lemmas scan_defs =
  runScan_def skipPair_def tokenInfoOf_def createdAtOf_def parseFloat_def
  calculateBuySellRatio_def float64_def fdiv_def calculateScores_def findBounds_def
  stepBounds_def initBounds_def scoreCandidate_def normalize_def scoreLess_def
  entryLogic_def executeBuy_def printTopScorers_def topScorersCount_def logWalletState_def
  profitabilityPercent_def actions_def minLiquidityUSD_def minVolume5mUSD_def
  wM5Change_def wH1Change_def wM5Volume_def wM5BuySellRatio_def wLiquidity_def

lemma runScan_cycleE:
  assumes "sortSlice_contract srt"
  obtains cands cpd scored st1 evs1 sold st2 evs2 bought where
    "processPairs (now - hour_ns) pairs [] Map.empty = Some (cands, cpd)"
    and "calculateScores cands = Some scored"
    and "\<forall>c \<in> set scored. 0 < PriceNative c"
    and "exitLogic now cpd st = (st1, evs1, sold)"
    and "entryLogic srt now scored st1 = Some (st2, evs2, bought)"
    and "runScan srt now (Inr pairs) st =
           Some (st2, evs1 @ evs2 @ (if sold \<or> bought then logWalletState now st2 else []))"
proof -
  obtain cands cpd where pp: "processPairs (now - hour_ns) pairs [] Map.empty = Some (cands, cpd)"
    using processPairs_total [of "now - hour_ns" pairs "[]" Map.empty] by auto
  obtain scored where sc: "calculateScores cands = Some scored"
    using calculateScores_total [of cands] by auto
  have "\<forall>c \<in> set cands. 0 < PriceNative c"
    using pp by (rule processPairs_price_pos) simp
  then have pos: "\<forall>c \<in> set scored. 0 < PriceNative c"
    using calculateScores_price [OF sc] by (metis image_iff)
  obtain st1 evs1 sold where ex: "exitLogic now cpd st = (st1, evs1, sold)"
    by (cases "exitLogic now cpd st") auto
  obtain st2 evs2 bought where en: "entryLogic srt now scored st1 = Some (st2, evs2, bought)"
    using entryLogic_summary [where now = now and st = st1, OF assms pos]
    by (cases "entryLogic srt now scored st1") auto
  have "runScan srt now (Inr pairs) st =
           Some (st2, evs1 @ evs2 @ (if sold \<or> bought then logWalletState now st2 else []))"
    using pp sc ex en by (simp add: runScan_def)
  with pp sc pos ex en show thesis
    by (rule that)
qed

lemma actions_append: "actions (xs @ ys) = actions xs @ actions ys"
  by (simp add: actions_def tradesLogged_append)

lemma actions_Nil: "actions [] = []"
  by (simp add: actions_def)

lemma actions_logWalletState: "actions (logWalletState now st) = []"
  by (simp add: actions_def tradesLogged_logWalletState)

text \<open>
  C1, as amended. Every cycle returns. A cycle that starts with a position applies the
  exit rule, and the entry rule is applied whenever no position is held after that, also
  right after a SELL of the same cycle: such a cycle logs no trade, one SELL, or one SELL
  followed by one BUY. A cycle that starts without a position logs no trade or one BUY.
  So a cycle has at most one SELL and at most one BUY, and no BUY comes before a SELL.
  A cycle without a trade leaves the wallet and the Active flag as they were, and a
  cycle whose fetch failed leaves the whole state as it was.
\<close>

theorem cycle_transitions:
  assumes "sortSlice_contract sortSlice"
  shows "case runScan sortSlice now fetched st of
           None \<Rightarrow> False
         | Some (st', evs) \<Rightarrow>
             (if h_Active (holding st)
              then actions evs \<in> {[], [''SELL''], [''SELL'', ''BUY'']}
              else actions evs \<in> {[], [''BUY'']})
             \<and> (actions evs = [] \<longrightarrow>
                   wallet st' = wallet st \<and> (h_Active (holding st') \<longleftrightarrow> h_Active (holding st)))
             \<and> (actions evs = [''SELL''] \<longrightarrow> \<not> h_Active (holding st'))
             \<and> (actions evs = [''BUY''] \<or> actions evs = [''SELL'', ''BUY'']
                   \<longrightarrow> h_Active (holding st'))
             \<and> (case fetched of Inl err \<Rightarrow> st' = st | Inr pairs \<Rightarrow> True)"
proof (cases fetched)
  case (Inl err)
  then show ?thesis
    by (simp add: runScan_def actions_def)
next
  case (Inr pairs)
  obtain cands cpd scored st1 evs1 sold st2 evs2 bought where
    ex: "exitLogic now cpd st = (st1, evs1, sold)"
    and en: "entryLogic sortSlice now scored st1 = Some (st2, evs2, bought)"
    and pos: "\<forall>c \<in> set scored. 0 < PriceNative c"
    and run: "runScan sortSlice now (Inr pairs) st =
           Some (st2, evs1 @ evs2 @ (if sold \<or> bought then logWalletState now st2 else []))"
    using runScan_cycleE [OF assms, where now = now and pairs = pairs and st = st] by metis
  have exs: "(sold \<longrightarrow> h_Active (holding st) \<and> \<not> h_Active (holding st1) \<and> actions evs1 = [''SELL''])
     \<and> (\<not> sold \<longrightarrow> wallet st1 = wallet st
           \<and> (h_Active (holding st1) \<longleftrightarrow> h_Active (holding st)) \<and> actions evs1 = [])"
    using exitLogic_summary [where now = now and cpd = cpd and st = st] ex by simp
  have ens: "(bought \<longrightarrow> \<not> h_Active (holding st1) \<and> h_Active (holding st2)
                   \<and> actions evs2 = [''BUY''])
             \<and> (\<not> bought \<longrightarrow> st2 = st1 \<and> actions evs2 = [])"
    using entryLogic_summary [where now = now and st = st1, OF assms pos] en by simp
  define evs where "evs = evs1 @ evs2 @ (if sold \<or> bought then logWalletState now st2 else [])"
  have acts: "actions evs = actions evs1 @ actions evs2"
    unfolding evs_def
    by (cases "sold \<or> bought") (simp_all add: actions_append actions_logWalletState actions_Nil)
  have run': "runScan sortSlice now (Inr pairs) st = Some (st2, evs)"
    using run by (simp add: evs_def)
  show ?thesis
    unfolding Inr run' using exs ens
    by (cases sold; cases bought) (simp_all add: acts)
qed

theorem cycle_transitions_witness:
  "sortSlice_contract insertionSort
   \<and> h_Active (holding (heldState 9 1))
   \<and> map_option (actions \<circ> snd)
         (runScan insertionSort sampleNow (Inr [samplePair ''A'' (106 / 100) 1 5000 1])
            (heldState 9 1))
       = Some [''SELL'']
   \<and> map_option (h_Active \<circ> holding \<circ> fst)
         (runScan insertionSort sampleNow (Inr [samplePair ''A'' (106 / 100) 1 5000 1])
            (heldState 9 1))
       = Some False"
proof -
  have ev: "map_option (actions \<circ> snd)
         (runScan insertionSort sampleNow (Inr [samplePair ''A'' (106 / 100) 1 5000 1])
            (heldState 9 1))
       = Some [''SELL'']"
    by (simp add: sample_defs const_defs exit_defs scan_defs)
  have held: "h_Active (holding (heldState 9 1))"
    by (simp add: sample_defs)
  show ?thesis
    using cycle_transitions [OF insertionSort_contract, where now = sampleNow
        and fetched = "Inr [samplePair ''A'' (106 / 100) 1 5000 1]" and st = "heldState 9 1"]
      ev held insertionSort_contract
    by (auto split: option.splits)
qed

text \<open>
  C1, as stated, fails: with pair \<open>A\<close> held and at its take-profit price, and pair \<open>B\<close>
  scoring 1.0, one cycle sells \<open>A\<close> and then buys \<open>B\<close>.
\<close>

theorem sell_then_buy_counterexample:
  "h_Active (holding (heldState 9 1))
   \<and> map_option (actions \<circ> snd)
         (runScan insertionSort sampleNow (Inr sellBuyBatch) (heldState 9 1))
       = Some [''SELL'', ''BUY'']"
  by (simp add: sellBuyBatch_def sample_defs const_defs exit_defs scan_defs)

subsection \<open>Wallet accounting\<close>

lemma exitLogic_accounting:
  "case exitLogic now cpd st of (st', evs, sold) \<Rightarrow>
     if sold
     then (case tradesLogged evs of
             [t] \<Rightarrow> tl_Action t = ''SELL''
                    \<and> SOLBalance (wallet st')
                        = SOLBalance (wallet st) + tl_SOLAmount t * (1 - simulatedFeePercent)
           | _ \<Rightarrow> False)
     else wallet st' = wallet st \<and> actions evs = []"
proof (cases "h_Active (holding st)")
  case False
  then show ?thesis by (simp add: exitLogic_idle actions_def)
next
  case held: True
  show ?thesis
  proof (cases "cpd (h_PairAddress (holding st))")
    case None
    then show ?thesis using held by (simp add: exitLogic_absent actions_def)
  next
    case found: (Some d)
    show ?thesis
    proof (cases "exitReason now (updatePeak (holding st) d) d")
      case None
      then show ?thesis
        using held found by (simp add: exitLogic_hold actions_def updatePeak_def)
    next
      case (Some r)
      then show ?thesis
        using held found
        by (simp add: exitLogic_sell executeSell_def Let_def updatePeak_def algebra_simps)
    qed
  qed
qed

text \<open>
  C4. The entry logic returns; when it buys, the balance was at least the trade size plus
  the fee and it decreases by exactly trade size times (1 + fee rate); when it does not
  buy, and so whenever the balance is below trade size plus fee, the state is unchanged
  and no trade is logged. When the exit logic sells, the balance increases by exactly
  the logged gross proceeds times (1 - fee rate); when it does not, the wallet is
  unchanged.
\<close>

theorem wallet_accounting:
  assumes "sortSlice_contract sortSlice" and "\<forall>c \<in> set scoredCandidates. 0 < PriceNative c"
  shows "(case entryLogic sortSlice now scoredCandidates st of
            None \<Rightarrow> False
          | Some (st', evs, bought) \<Rightarrow>
              (if bought
               then tradeSizeSOL + tradeSizeSOL * simulatedFeePercent \<le> SOLBalance (wallet st)
                    \<and> SOLBalance (wallet st')
                        = SOLBalance (wallet st) - tradeSizeSOL * (1 + simulatedFeePercent)
                    \<and> actions evs = [''BUY'']
               else st' = st \<and> actions evs = [])
              \<and> (SOLBalance (wallet st) < tradeSizeSOL + tradeSizeSOL * simulatedFeePercent
                    \<longrightarrow> \<not> bought))
       \<and> (case exitLogic now cpd st of (st', evs, sold) \<Rightarrow>
             if sold
             then (case tradesLogged evs of
                     [t] \<Rightarrow> tl_Action t = ''SELL''
                            \<and> SOLBalance (wallet st')
                                = SOLBalance (wallet st)
                                  + tl_SOLAmount t * (1 - simulatedFeePercent)
                   | _ \<Rightarrow> False)
             else wallet st' = wallet st \<and> actions evs = [])"
proof -
  have entry: "case entryLogic sortSlice now scoredCandidates st of
            None \<Rightarrow> False
          | Some (st', evs, bought) \<Rightarrow>
              (if bought
               then tradeSizeSOL + tradeSizeSOL * simulatedFeePercent \<le> SOLBalance (wallet st)
                    \<and> SOLBalance (wallet st')
                        = SOLBalance (wallet st) - tradeSizeSOL * (1 + simulatedFeePercent)
                    \<and> actions evs = [''BUY'']
               else st' = st \<and> actions evs = [])
              \<and> (SOLBalance (wallet st) < tradeSizeSOL + tradeSizeSOL * simulatedFeePercent
                    \<longrightarrow> \<not> bought)"
    using entryLogic_summary [where now = now and st = st, OF assms]
    by (auto split: option.splits)
  show ?thesis
    using entry exitLogic_accounting [where now = now and cpd = cpd and st = st] by blast
qed

theorem wallet_accounting_witness:
  "sortSlice_contract insertionSort
   \<and> map PriceNative scoredPair = [1, 2]
   \<and> entryLogic insertionSort sampleNow scoredPair (idleState 10) \<noteq> None
   \<and> map_option (actions \<circ> fst \<circ> snd) (entryLogic insertionSort sampleNow scoredPair (idleState 10))
       = Some [''BUY'']
   \<and> map_option (SOLBalance \<circ> wallet \<circ> fst)
         (entryLogic insertionSort sampleNow scoredPair (idleState 10))
       = Some (8997 / 1000)
   \<and> map_option (SOLBalance \<circ> wallet \<circ> fst)
         (entryLogic insertionSort sampleNow scoredPair (idleState (1002 / 1000)))
       = Some (1002 / 1000)
   \<and> SOLBalance (wallet (fst (exitLogic sampleNow (sampleBatchA (106 / 100) 5000) (heldState 9 1))))
       = 9 + 106 / 100 * (1 - 3 / 1000)"
proof -
  have pos: "\<forall>c \<in> set scoredPair. 0 < PriceNative c"
    by (simp add: scoredPair_def sample_defs)
  have ev: "map PriceNative scoredPair = [1, 2]"
    "map_option (actions \<circ> fst \<circ> snd) (entryLogic insertionSort sampleNow scoredPair (idleState 10))
       = Some [''BUY'']"
    "map_option (SOLBalance \<circ> wallet \<circ> fst)
         (entryLogic insertionSort sampleNow scoredPair (idleState 10))
       = Some (8997 / 1000)"
    "map_option (SOLBalance \<circ> wallet \<circ> fst)
         (entryLogic insertionSort sampleNow scoredPair (idleState (1002 / 1000)))
       = Some (1002 / 1000)"
    "SOLBalance (wallet (fst (exitLogic sampleNow (sampleBatchA (106 / 100) 5000) (heldState 9 1))))
       = 9 + 106 / 100 * (1 - 3 / 1000)"
    by (simp_all add: scoredPair_def sample_defs const_defs exit_defs scan_defs)
  show ?thesis
    using wallet_accounting [OF insertionSort_contract pos, where now = sampleNow
        and st = "idleState 10" and cpd = "sampleBatchA (106 / 100) 5000"]
      ev insertionSort_contract
    by (auto split: option.splits)
qed

subsection \<open>The holding after a SELL\<close>





subsection \<open>The ranking\<close>






end
